theory Spec2Isabelle
  imports Main "HOL-Library.Sublist"
begin

section \<open>Next.js framework adapter: backend analysis and static export\<close>

text \<open>
  This theory embeds the two functions of \<^verbatim>\<open>src/frameworks/next/index.ts\<close> that
  inspect the output of a Next.js build: \<^verbatim>\<open>build\<close>, which decides whether the
  application needs a Cloud Function and translates the routing rules, and
  \<^verbatim>\<open>codegenPublicDirectory\<close>, which copies the prerendered files into the hosting
  directory.

  JavaScript strings are modelled as \<^typ>\<open>string\<close>, objects read from JSON as
  association lists in the order of \<^verbatim>\<open>Object.entries\<close>, a property that may be
  \<^verbatim>\<open>undefined\<close> as an \<^typ>\<open>'a option\<close>, and every thrown exception or rejected
  promise as a value \<open>Inl e\<close> of a sum type.
\<close>

subsection \<open>Errors\<close>

datatype error =
    UnderlyingBuildFailure string
  | ConfigError string
  | ManifestMissing
  | ManifestParseError
  | TypeError
  | SyntaxError
  | IOError string

definition bindE :: "error + 'a \<Rightarrow> ('a \<Rightarrow> error + 'b) \<Rightarrow> error + 'b" where
  "bindE m f = (case m of Inl e \<Rightarrow> Inl e | Inr x \<Rightarrow> f x)"

subsection \<open>Manifest files\<close>

text \<open>
  A JSON file of the build output directory, as \<^verbatim>\<open>readJSON\<close> meets it: the file
  is not there, its content is not JSON, or it parses to a value.
\<close>

datatype 'a json_file = Absent | Malformed | Parsed 'a

text \<open>
  Modelled from the spec: \<^verbatim>\<open>readJSON\<close> of \<^verbatim>\<open>../utils\<close> is imported by the source
  and not part of it. Section 4.1 of the specification: reading fails with
  \<^verbatim>\<open>ManifestMissing\<close> if the file does not exist, except for manifests documented
  as optional, which default to an empty structure, and with
  \<^verbatim>\<open>ManifestParseError\<close> if the content is not valid structured data. The source
  gives \<^verbatim>\<open>readJSON\<close> the path of the file; the model gives it what the
  specification documents for the manifest at that path: \<open>Some\<close> of its empty
  structure when section 6 lists the manifest as optional (the app-directory routes
  manifest, the export marker, the images manifest), and \<open>None\<close> otherwise.
\<close>

definition readJSON :: "'a option \<Rightarrow> 'a json_file \<Rightarrow> error + 'a" where
  "readJSON emptyStructure f =
     (case f of
        Absent \<Rightarrow> (case emptyStructure of
                     None \<Rightarrow> Inl ManifestMissing
                   | Some v \<Rightarrow> Inr v)
      | Malformed \<Rightarrow> Inl ManifestParseError
      | Parsed v \<Rightarrow> Inr v)"

text \<open>
  Modelled from the spec: \<^verbatim>\<open>fileExistsSync\<close> of \<^verbatim>\<open>../../fsutils\<close> is imported by
  the source and not part of it; it tells whether the file is there.
\<close>

definition fileExistsSync :: "'a json_file \<Rightarrow> bool" where
  "fileExistsSync f = (f \<noteq> Absent)"

record matcher =
  regexp :: string

record middleware_info =
  matchers :: "matcher list"

record middleware_manifest =
  middleware :: "(string \<times> middleware_info) list"

text \<open>\<^verbatim>\<open>isNextImageImported\<close> is read from an untyped object: it may be missing.\<close>

record export_marker =
  isNextImageImported :: "bool option"

record images_config =
  unoptimized :: "bool option"

record images_manifest =
  images :: images_config

text \<open>
  The empty structures of the two, which stand for a missing file when it is read:
  the marker is not set, and no image setting is given.
\<close>

definition emptyExportMarker :: export_marker where
  "emptyExportMarker = \<lparr>isNextImageImported = None\<rparr>"

definition emptyImagesManifest :: images_manifest where
  "emptyImagesManifest = \<lparr>images = \<lparr>unoptimized = None\<rparr>\<rparr>"

text \<open>
  \<^verbatim>\<open>initialRevalidateSeconds\<close> has the type \<^verbatim>\<open>number | false\<close>: \<open>None\<close> is
  \<^verbatim>\<open>false\<close> (or a missing property), \<open>Some n\<close> the number \<open>n\<close>.
\<close>

record route_info =
  initialRevalidateSeconds :: "nat option"
  dataRoute :: string

text \<open>The fallback of a dynamic route is \<^verbatim>\<open>false\<close>, \<^verbatim>\<open>null\<close> or a path.\<close>

datatype fallback_policy = FallbackFalse | FallbackNull | FallbackPath string

record dynamic_route =
  fallback :: fallback_policy

text \<open>
  The source reads \<^verbatim>\<open>prerenderManifest.dynamicRoutes || {}\<close> in one place and
  \<^verbatim>\<open>prerenderManifest.dynamicRoutes\<close> in another, so the property may be missing.
\<close>

record prerender_manifest =
  routes :: "(string \<times> route_info) list"
  dynamicRoutes :: "(string \<times> dynamic_route) list option"

type_synonym pages_manifest = "(string \<times> string) list"

type_synonym app_path_routes_manifest = "(string \<times> string) list"

text \<open>
  The rules of the routes manifest, with the properties that the source reads. Their
  full declarations are in \<^verbatim>\<open>./interfaces\<close>, which is imported and not part of the
  source.
\<close>

record header_rule =
  header_source :: string
  header_headers :: "(string \<times> string) list"
  header_regex :: string

record redirect_rule =
  redirect_source :: string
  redirect_destination :: string
  redirect_statusCode :: "nat option"
  redirect_regex :: string

record rewrite_rule =
  rewrite_source :: string
  rewrite_destination :: string
  rewrite_regex :: string

text \<open>
  The rewrites of a routes manifest are either an array or an object with the three
  optional phases \<^verbatim>\<open>beforeFiles\<close>, \<^verbatim>\<open>afterFiles\<close>, \<^verbatim>\<open>fallback\<close>.
\<close>

datatype rewrites_field =
    RewriteArray "rewrite_rule list"
  | RewritePhases "rewrite_rule list option" "rewrite_rule list option"
      "rewrite_rule list option"

record routes_manifest =
  manifest_headers :: "header_rule list option"
  manifest_redirects :: "redirect_rule list option"
  manifest_rewrites :: "rewrites_field option"

subsection \<open>The helpers of \<^verbatim>\<open>./utils\<close>\<close>

text \<open>
  The three compatibility predicates and \<^verbatim>\<open>cleanEscapedChars\<close> are imported from
  \<^verbatim>\<open>./utils\<close>, which is not part of the source: they are parameters of the model.
\<close>

record utils =
  isHeaderSupportedByFirebase :: "header_rule \<Rightarrow> bool"
  isRedirectSupportedByFirebase :: "redirect_rule \<Rightarrow> bool"
  isRewriteSupportedByFirebase :: "rewrite_rule \<Rightarrow> bool"
  cleanEscapedChars :: "string \<Rightarrow> string"

text \<open>
  Modelled from the spec: \<^verbatim>\<open>getNextjsRewritesToUse\<close> of \<^verbatim>\<open>./utils\<close> is imported by
  the source and not part of it. Section 3 of the specification: rewrites may be
  partitioned into phases, and only the unphased (or before-files) form is representable
  downstream.
\<close>

definition getNextjsRewritesToUse :: "rewrites_field \<Rightarrow> rewrite_rule list" where
  "getNextjsRewritesToUse nextJsRewrites =
     (case nextJsRewrites of
        RewriteArray rs \<Rightarrow> rs
      | RewritePhases beforeFiles afterFiles fallbackPhase \<Rightarrow>
          (case beforeFiles of Some rs \<Rightarrow> rs | None \<Rightarrow> []))"

subsection \<open>JavaScript conversions\<close>

text \<open>The truth value of a \<^verbatim>\<open>number | false\<close> and of a \<^verbatim>\<open>boolean | undefined\<close>.\<close>

definition truthyNumber :: "nat option \<Rightarrow> bool" where
  "truthyNumber v = (case v of None \<Rightarrow> False | Some n \<Rightarrow> n \<noteq> 0)"

definition truthyBool :: "bool option \<Rightarrow> bool" where
  "truthyBool v = (case v of None \<Rightarrow> False | Some b \<Rightarrow> b)"

text \<open>The length of an optional array, as \<^verbatim>\<open>xs?.length\<close> in a condition.\<close>

definition truthyLength :: "'a list option \<Rightarrow> bool" where
  "truthyLength v = (case v of None \<Rightarrow> False | Some xs \<Rightarrow> length xs \<noteq> 0)"

text \<open>A natural number in a template literal: its decimal digits.\<close>

fun showNat :: "nat \<Rightarrow> string" where
  "showNat n = (if n < 10 then [char_of (48 + n)]
                else showNat (n div 10) @ [char_of (48 + n mod 10)])"

declare showNat.simps [simp del]

subsection \<open>The analyzer: \<^verbatim>\<open>build\<close>\<close>

text \<open>Lines 95 to 101: any key of the middleware object.\<close>

definition middlewareReasons :: "middleware_manifest \<Rightarrow> string list" where
  "middlewareReasons middlewareManifest =
     (let usingMiddleware = length (map fst (middleware middlewareManifest)) > 0
      in if usingMiddleware then [''use of Next middleware''] else [])"

text \<open>
  Lines 103 to 110: the images manifest is read only when the marker is set, and the
  comparison with \<^verbatim>\<open>false\<close> is strict.
\<close>

definition imageReasons ::
  "export_marker \<Rightarrow> images_manifest json_file \<Rightarrow> error + string list" where
  "imageReasons exportMarker imagesFile =
     (if truthyBool (isNextImageImported exportMarker) then
        bindE (readJSON (Some emptyImagesManifest) imagesFile) (\<lambda>imagesManifest.
          let usingImageOptimization = (unoptimized (images imagesManifest) = Some False)
          in Inr (if usingImageOptimization then [''use of Next Image Optimization'']
                  else []))
      else Inr [])"

text \<open>Lines 112 to 121: the only manifest read behind an existence check.\<close>

definition appDirReasons :: "app_path_routes_manifest json_file \<Rightarrow> error + string list" where
  "appDirReasons appFile =
     bindE (if fileExistsSync appFile then readJSON (Some []) appFile else Inr [])
       (\<lambda>appPathRoutesManifestJSON.
          let usingAppDirectory = length (map fst appPathRoutesManifestJSON) > 0
          in Inr (if usingAppDirectory then [''use of Next app directory''] else []))"

text \<open>Lines 127 to 134.\<close>

definition fallbackReasons :: "prerender_manifest \<Rightarrow> string list" where
  "fallbackReasons prerenderManifest =
     (let dynamicRoutesWithFallback =
            filter (\<lambda>(key, it). fallback it \<noteq> FallbackFalse)
              (case dynamicRoutes prerenderManifest of None \<Rightarrow> [] | Some d \<Rightarrow> d)
      in map (\<lambda>(key, it). ''use of fallback '' @ key) dynamicRoutesWithFallback)"

text \<open>Lines 136 to 143.\<close>

definition revalidateReasons :: "prerender_manifest \<Rightarrow> string list" where
  "revalidateReasons prerenderManifest =
     (let routesWithRevalidate =
            filter (\<lambda>(key, it). truthyNumber (initialRevalidateSeconds it))
              (routes prerenderManifest)
      in map (\<lambda>(key, it). ''use of revalidate '' @ key) routesWithRevalidate)"

text \<open>
  Lines 148 to 162: \<^verbatim>\<open>Object.keys\<close> of a missing \<^verbatim>\<open>dynamicRoutes\<close> throws.
\<close>

definition reservedPages :: "string list" where
  "reservedPages = [''/_app'', ''/'', ''/_error'', ''/_document'', ''/404'']"

definition unrenderedPages ::
  "pages_manifest \<Rightarrow> string list \<Rightarrow> string list \<Rightarrow> string list" where
  "unrenderedPages pagesManifestJSON prerenderedRoutes dynamicRouteKeys =
     filter (\<lambda>it. \<not> (it \<in> set reservedPages \<or> it \<in> set prerenderedRoutes
                      \<or> it \<in> set dynamicRouteKeys))
       (map fst pagesManifestJSON)"

definition unrenderedReasons ::
  "pages_manifest \<Rightarrow> prerender_manifest \<Rightarrow> error + string list" where
  "unrenderedReasons pagesManifestJSON prerenderManifest =
     (let prerenderedRoutes = map fst (routes prerenderManifest)
      in case dynamicRoutes prerenderManifest of
           None \<Rightarrow> Inl TypeError
         | Some d \<Rightarrow>
             Inr (map (\<lambda>key. ''non-static route '' @ key)
                    (unrenderedPages pagesManifestJSON prerenderedRoutes (map fst d))))"

text \<open>Lines 166 to 170: a missing property defaults to the empty array.\<close>

definition nextJsHeaders :: "routes_manifest \<Rightarrow> header_rule list" where
  "nextJsHeaders manifest = (case manifest_headers manifest of None \<Rightarrow> [] | Some hs \<Rightarrow> hs)"

definition nextJsRedirects :: "routes_manifest \<Rightarrow> redirect_rule list" where
  "nextJsRedirects manifest =
     (case manifest_redirects manifest of None \<Rightarrow> [] | Some rs \<Rightarrow> rs)"

definition nextJsRewrites :: "routes_manifest \<Rightarrow> rewrites_field" where
  "nextJsRewrites manifest =
     (case manifest_rewrites manifest of None \<Rightarrow> RewriteArray [] | Some rw \<Rightarrow> rw)"

text \<open>The rules written to the hosting configuration.\<close>

record emitted_rule =
  source :: string

record emitted_header = emitted_rule +
  headers :: "(string \<times> string) list"

record emitted_rewrite = emitted_rule +
  destination :: string

record emitted_redirect = emitted_rewrite +
  type :: "nat option"

text \<open>Lines 172 to 181.\<close>

definition headerReasons :: "utils \<Rightarrow> header_rule list \<Rightarrow> string list" where
  "headerReasons u hs =
     (let isEveryHeaderSupported = list_all (isHeaderSupportedByFirebase u) hs
      in if \<not> isEveryHeaderSupported then [''use of advanced headers''] else [])"

definition emitHeader :: "utils \<Rightarrow> header_rule \<Rightarrow> emitted_header" where
  "emitHeader u h =
     \<lparr>source = cleanEscapedChars u (header_source h), headers = header_headers h\<rparr>"

definition emittedHeaders :: "utils \<Rightarrow> header_rule list \<Rightarrow> emitted_header list" where
  "emittedHeaders u hs = map (emitHeader u) (filter (isHeaderSupportedByFirebase u) hs)"

text \<open>Lines 183 to 195.\<close>

definition redirectReasons :: "utils \<Rightarrow> redirect_rule list \<Rightarrow> string list" where
  "redirectReasons u rs =
     (let isEveryRedirectSupported = list_all (isRedirectSupportedByFirebase u) rs
      in if \<not> isEveryRedirectSupported then [''use of advanced redirects''] else [])"

definition emitRedirect :: "utils \<Rightarrow> redirect_rule \<Rightarrow> emitted_redirect" where
  "emitRedirect u r =
     \<lparr>source = cleanEscapedChars u (redirect_source r),
      destination = redirect_destination r, type = redirect_statusCode r\<rparr>"

definition emittedRedirects :: "utils \<Rightarrow> redirect_rule list \<Rightarrow> emitted_redirect list" where
  "emittedRedirects u rs =
     map (emitRedirect u) (filter (isRedirectSupportedByFirebase u) rs)"

text \<open>
  Lines 197 to 219: an object with a non-empty \<^verbatim>\<open>afterFiles\<close> or \<^verbatim>\<open>fallback\<close>
  phase gives the reason at once; otherwise the rules to use are tested one by one.
\<close>

definition usesUnsupportedPhases :: "rewrites_field \<Rightarrow> bool" where
  "usesUnsupportedPhases rw =
     (case rw of
        RewriteArray rs \<Rightarrow> False
      | RewritePhases beforeFiles afterFiles fallbackPhase \<Rightarrow>
          truthyLength afterFiles \<or> truthyLength fallbackPhase)"

definition rewriteReasons :: "utils \<Rightarrow> rewrites_field \<Rightarrow> string list" where
  "rewriteReasons u rw =
     (let nextJsRewritesToUse = getNextjsRewritesToUse rw
      in if usesUnsupportedPhases rw then [''use of advanced rewrites'']
         else (let isEveryRewriteSupported =
                     list_all (isRewriteSupportedByFirebase u) nextJsRewritesToUse
               in if \<not> isEveryRewriteSupported then [''use of advanced rewrites'']
                  else []))"

definition emitRewrite :: "utils \<Rightarrow> rewrite_rule \<Rightarrow> emitted_rewrite" where
  "emitRewrite u r =
     \<lparr>source = cleanEscapedChars u (rewrite_source r),
      destination = rewrite_destination r\<rparr>"

definition emittedRewrites :: "utils \<Rightarrow> rewrites_field \<Rightarrow> emitted_rewrite list" where
  "emittedRewrites u rw =
     map (emitRewrite u)
       (filter (isRewriteSupportedByFirebase u) (getNextjsRewritesToUse rw))"

text \<open>
  Lines 221 to 237: the lines printed when a backend is wanted. Without
  \<^verbatim>\<open>process.env.DEBUG\<close> the first five reasons are listed and the others counted.
\<close>

definition DEFAULT_NUMBER_OF_REASONS_TO_LIST :: nat where
  "DEFAULT_NUMBER_OF_REASONS_TO_LIST = 5"

definition bullet :: string where
  "bullet = [CHR '' '', CHR 0xE2, CHR 0x80, CHR 0xA2, CHR '' '']"

definition consoleLines :: "bool \<Rightarrow> string list \<Rightarrow> string list" where
  "consoleLines debugEnv reasonsList =
     (if length reasonsList > 0 then
        [''Building a Cloud Function to run this application. This is needed due to:'']
        @ map (\<lambda>reason. bullet @ reason)
            (if debugEnv then reasonsList
             else take DEFAULT_NUMBER_OF_REASONS_TO_LIST reasonsList)
        @ (if \<not> debugEnv \<and> length reasonsList > DEFAULT_NUMBER_OF_REASONS_TO_LIST
           then [bullet @ ''and ''
                 @ showNat (length reasonsList - DEFAULT_NUMBER_OF_REASONS_TO_LIST)
                 @ '' other reasons, use --debug to see more'']
           else [])
        @ [[]]
      else [])"

text \<open>
  What \<^verbatim>\<open>build\<close> is given: the outcome of the framework's own build (\<open>Some\<close> is
  the message of its failure), the outcome of \<^verbatim>\<open>getConfig\<close> (the output directory),
  whether \<^verbatim>\<open>process.env.DEBUG\<close> is set, and the JSON files of the output directory,
  each under the field named after it. Loading the framework, the warning about a
  custom build script and the environment variable set for React 18 come before the
  framework's build and are not part of the model.
\<close>

record project =
  nextBuild :: "string option"
  config :: "error + string"
  debug :: bool
  middlewareManifestFile :: "middleware_manifest json_file"
  exportMarkerFile :: "export_marker json_file"
  imagesManifestFile :: "images_manifest json_file"
  appPathRoutesManifestFile :: "app_path_routes_manifest json_file"
  prerenderManifestFile :: "prerender_manifest json_file"
  pagesManifestFile :: "pages_manifest json_file"
  routesManifestFile :: "routes_manifest json_file"

text \<open>
  The object that \<^verbatim>\<open>build\<close> returns, together with its local list of reasons and
  the lines it prints.
\<close>

record build_result =
  wantsBackend :: bool
  resultHeaders :: "emitted_header list"
  resultRedirects :: "emitted_redirect list"
  resultRewrites :: "emitted_rewrite list"

record build_outcome =
  reasonsForBackend :: "string list"
  console :: "string list"
  returned :: build_result

definition build :: "utils \<Rightarrow> project \<Rightarrow> error + build_outcome" where
  "build u p =
     (case nextBuild p of
        Some message \<Rightarrow> Inl (UnderlyingBuildFailure message)
      | None \<Rightarrow>
     bindE (config p) (\<lambda>distDir.
     bindE (readJSON None (middlewareManifestFile p)) (\<lambda>middlewareManifest.
     bindE (readJSON (Some emptyExportMarker) (exportMarkerFile p)) (\<lambda>exportMarker.
     bindE (imageReasons exportMarker (imagesManifestFile p)) (\<lambda>imageRs.
     bindE (appDirReasons (appPathRoutesManifestFile p)) (\<lambda>appDirRs.
     bindE (readJSON None (prerenderManifestFile p)) (\<lambda>prerenderManifest.
     bindE (readJSON None (pagesManifestFile p)) (\<lambda>pagesManifestJSON.
     bindE (unrenderedReasons pagesManifestJSON prerenderManifest) (\<lambda>unrenderedRs.
     bindE (readJSON None (routesManifestFile p)) (\<lambda>manifest.
       let reasonsList =
             middlewareReasons middlewareManifest @ imageRs @ appDirRs
             @ fallbackReasons prerenderManifest @ revalidateReasons prerenderManifest
             @ unrenderedRs
             @ headerReasons u (nextJsHeaders manifest)
             @ redirectReasons u (nextJsRedirects manifest)
             @ rewriteReasons u (nextJsRewrites manifest);
           wants = length reasonsList > 0
       in Inr \<lparr>reasonsForBackend = reasonsList,
               console = consoleLines (debug p) reasonsList,
               returned =
                 \<lparr>wantsBackend = wants,
                  resultHeaders = emittedHeaders u (nextJsHeaders manifest),
                  resultRedirects = emittedRedirects u (nextJsRedirects manifest),
                  resultRewrites = emittedRewrites u (nextJsRewrites manifest)\<rparr>\<rparr>
     ))))))))))"

subsection \<open>Paths\<close>

text \<open>
  \<^verbatim>\<open>String.prototype.split\<close> with a one-character separator: the pieces between
  the separators, empty pieces included.
\<close>

fun split :: "char \<Rightarrow> string \<Rightarrow> string list" where
  "split c [] = [[]]"
| "split c (x # xs) =
     (if x = c then [] # split c xs
      else (case split c xs of [] \<Rightarrow> [[x]] | piece # pieces \<Rightarrow> (x # piece) # pieces))"

text \<open>\<^verbatim>\<open>Array.prototype.join\<close> with a separator.\<close>

fun joinWith :: "string \<Rightarrow> string list \<Rightarrow> string" where
  "joinWith sep [] = []"
| "joinWith sep [x] = x"
| "joinWith sep (x # y # ys) = x @ sep @ joinWith sep (y # ys)"

text \<open>
  \<^verbatim>\<open>join\<close> and \<^verbatim>\<open>dirname\<close> of Node's \<^verbatim>\<open>path\<close> module, on a POSIX platform.
  Normalising a path drops its empty and \<^verbatim>\<open>.\<close> segments and resolves each
  \<^verbatim>\<open>..\<close> against the segment before it; a relative path keeps the \<^verbatim>\<open>..\<close>
  segments that lead above its start. The segments are kept in reverse while
  they are collected.
\<close>

fun normalizeSegments :: "bool \<Rightarrow> string list \<Rightarrow> string list \<Rightarrow> string list" where
  "normalizeSegments allowAboveRoot res [] = rev res"
| "normalizeSegments allowAboveRoot res (seg # segs) =
     (if seg = [] \<or> seg = ''.'' then normalizeSegments allowAboveRoot res segs
      else if seg = ''..'' then
        (case res of
           [] \<Rightarrow> normalizeSegments allowAboveRoot
                  (if allowAboveRoot then [''..''] else []) segs
         | lastSeg # earlier \<Rightarrow>
             if lastSeg = ''..''
             then normalizeSegments allowAboveRoot
                    (if allowAboveRoot then ''..'' # res else res) segs
             else normalizeSegments allowAboveRoot earlier segs)
      else normalizeSegments allowAboveRoot (seg # res) segs)"

definition normalize :: "string \<Rightarrow> string" where
  "normalize path =
     (if path = [] then ''.''
      else
        let isAbsolute = (hd path = CHR ''/'');
            trailingSeparator = (last path = CHR ''/'');
            normalized =
              joinWith ''/'' (normalizeSegments (\<not> isAbsolute) [] (split CHR ''/'' path))
        in if normalized = [] then
             (if isAbsolute then ''/'' else if trailingSeparator then ''./'' else ''.'')
           else (if isAbsolute then ''/'' else []) @ normalized
                @ (if trailingSeparator then ''/'' else []))"

definition join :: "string list \<Rightarrow> string" where
  "join args =
     (let given = filter (\<lambda>arg. arg \<noteq> []) args
      in if given = [] then ''.'' else normalize (joinWith ''/'' given))"

text \<open>
  \<^verbatim>\<open>dirname\<close> scans the path from its end down to index 1: it passes the
  trailing separators and the last segment, and stops at the separator before it.
\<close>

fun dirnameEnd :: "string \<Rightarrow> nat \<Rightarrow> bool \<Rightarrow> nat option" where
  "dirnameEnd path 0 matchedSlash = None"
| "dirnameEnd path (Suc i) matchedSlash =
     (if path ! Suc i = CHR ''/'' then
        (if \<not> matchedSlash then Some (Suc i) else dirnameEnd path i matchedSlash)
      else dirnameEnd path i False)"

definition dirname :: "string \<Rightarrow> string" where
  "dirname path =
     (if path = [] then ''.''
      else
        let hasRoot = (hd path = CHR ''/'')
        in case dirnameEnd path (length path - 1) True of
             None \<Rightarrow> if hasRoot then ''/'' else ''.''
           | Some e \<Rightarrow> if hasRoot \<and> e = 1 then ''//'' else take e path)"

text \<open>\<^verbatim>\<open>String.prototype.endsWith\<close>.\<close>

definition endsWith :: "string \<Rightarrow> string \<Rightarrow> bool" where
  "endsWith s ending = suffix ending s"

subsection \<open>The file system and the regular expressions\<close>

text \<open>
  The exporter works on the file system through \<^verbatim>\<open>pathExists\<close> and \<^verbatim>\<open>copy\<close> of
  \<^verbatim>\<open>fs-extra\<close> and \<^verbatim>\<open>mkdir\<close> (always recursive here) and \<^verbatim>\<open>copyFile\<close> of
  \<^verbatim>\<open>fs/promises\<close>, and matches paths with the \<^verbatim>\<open>RegExp\<close> of the JavaScript
  engine. These are parameters of the model: a file system of any type \<open>'fs\<close>, whose
  operations may fail, and compiled expressions of any type \<open>'re\<close>, where compiling
  an invalid pattern gives \<open>None\<close> (the constructor throws). The host also fixes
  the timing of two reads that run together.
\<close>

record ('fs, 're) host =
  pathExists :: "string \<Rightarrow> 'fs \<Rightarrow> bool"
  mkdir :: "string \<Rightarrow> 'fs \<Rightarrow> error + 'fs"
  copy :: "string \<Rightarrow> string \<Rightarrow> 'fs \<Rightarrow> error + 'fs"
  copyFile :: "string \<Rightarrow> string \<Rightarrow> 'fs \<Rightarrow> error + 'fs"
  newRegExp :: "string \<Rightarrow> 're option"
  test :: "'re \<Rightarrow> string \<Rightarrow> bool"
  secondRejectsFirst :: bool

text \<open>
  \<^verbatim>\<open>Promise.all\<close> of two promises gives both values when both are fulfilled and
  is rejected as soon as one of them is: when both are rejected, with the error of
  the one rejected first. Which of the two that is depends on the timing of the
  platform; the host says whether it is the second.
\<close>

definition promiseAll :: "bool \<Rightarrow> error + 'a \<Rightarrow> error + 'b \<Rightarrow> error + 'a \<times> 'b" where
  "promiseAll secondFirst first second =
     (case first of
        Inl e1 \<Rightarrow> (case second of
                      Inl e2 \<Rightarrow> Inl (if secondFirst then e2 else e1)
                    | Inr y \<Rightarrow> Inl e1)
      | Inr x \<Rightarrow> (case second of
                     Inl e2 \<Rightarrow> Inl e2
                   | Inr y \<Rightarrow> Inr (x, y)))"

text \<open>
  The state of an export: the file system, and the writing calls made so far, in
  order.
\<close>

datatype fs_call = Mkdir string | Copy string string | CopyFile string string

record 'fs export_state =
  files :: 'fs
  calls :: "fs_call list"

definition doMkdir ::
  "('fs, 're) host \<Rightarrow> string \<Rightarrow> 'fs export_state \<Rightarrow> error + 'fs export_state" where
  "doMkdir h path s =
     bindE (mkdir h path (files s))
       (\<lambda>fs'. Inr \<lparr>files = fs', calls = calls s @ [Mkdir path]\<rparr>)"

definition doCopy ::
  "('fs, 're) host \<Rightarrow> string \<Rightarrow> string \<Rightarrow> 'fs export_state
     \<Rightarrow> error + 'fs export_state" where
  "doCopy h src dest s =
     bindE (copy h src dest (files s))
       (\<lambda>fs'. Inr \<lparr>files = fs', calls = calls s @ [Copy src dest]\<rparr>)"

definition doCopyFile ::
  "('fs, 're) host \<Rightarrow> string \<Rightarrow> string \<Rightarrow> 'fs export_state
     \<Rightarrow> error + 'fs export_state" where
  "doCopyFile h src dest s =
     bindE (copyFile h src dest (files s))
       (\<lambda>fs'. Inr \<lparr>files = fs', calls = calls s @ [CopyFile src dest]\<rparr>)"

text \<open>A \<^verbatim>\<open>for ... of\<close> loop whose body may throw: the first error ends it.\<close>

fun forEach :: "('a \<Rightarrow> 's \<Rightarrow> error + 's) \<Rightarrow> 'a list \<Rightarrow> 's \<Rightarrow> error + 's" where
  "forEach body [] s = Inr s"
| "forEach body (x # xs) s = bindE (body x s) (forEach body xs)"

text \<open>Compiling the expressions of a list of rules, in order.\<close>

fun compileAll :: "('fs, 're) host \<Rightarrow> string list \<Rightarrow> error + 're list" where
  "compileAll h [] = Inr []"
| "compileAll h (pattern # patterns) =
     (case newRegExp h pattern of
        None \<Rightarrow> Inl SyntaxError
      | Some re \<Rightarrow> bindE (compileAll h patterns) (\<lambda>res. Inr (re # res)))"

text \<open>
  \<^verbatim>\<open>middlewareMatchers.some((matcher) => new RegExp(matcher.regexp).test(path))\<close>:
  each matcher is compiled when it is reached, and the first match ends the search.
\<close>

fun someMatcher :: "('fs, 're) host \<Rightarrow> matcher list \<Rightarrow> string \<Rightarrow> error + bool" where
  "someMatcher h [] path = Inr False"
| "someMatcher h (m # ms) path =
     (case newRegExp h (regexp m) of
        None \<Rightarrow> Inl SyntaxError
      | Some re \<Rightarrow> if test h re path then Inr True else someMatcher h ms path)"

subsection \<open>The exporter: \<^verbatim>\<open>codegenPublicDirectory\<close>\<close>

text \<open>Lines 274 to 284, the body of the loop over the three default files.\<close>

definition copyDefaultHtml ::
  "('fs, 're) host \<Rightarrow> string \<Rightarrow> string \<Rightarrow> string \<Rightarrow> string \<Rightarrow> 'fs export_state
     \<Rightarrow> error + 'fs export_state" where
  "copyDefaultHtml h sourceDir distDir destDir file s =
     (let pagesPath = join [sourceDir, distDir, ''server'', ''pages'', file]
      in if pathExists h pagesPath (files s)
         then doCopyFile h pagesPath (join [destDir, file]) s
         else
           (let appPath = join [sourceDir, distDir, ''server'', ''app'', file]
            in if pathExists h appPath (files s)
               then doCopyFile h appPath (join [destDir, file]) s
               else Inr s))"

definition defaultHtmlFiles :: "string list" where
  "defaultHtmlFiles = [''index.html'', ''404.html'', ''500.html'']"

text \<open>Lines 372 to 375 and 380: the file names of a route.\<close>

definition partsOrIndex :: "string \<Rightarrow> string list" where
  "partsOrIndex path =
     (let parts = filter (\<lambda>it. it \<noteq> []) (split CHR ''/'' path)
      in if length parts > 0 then parts else [''index''])"

definition htmlPath :: "string \<Rightarrow> string" where
  "htmlPath path = join (partsOrIndex path) @ ''.html''"

definition dataPath :: "string \<Rightarrow> string" where
  "dataPath path = join (partsOrIndex path) @ ''.json''"

text \<open>Lines 335 to 384, the body of the loop over the prerendered routes.\<close>

definition exportRoute ::
  "('fs, 're) host \<Rightarrow> string \<Rightarrow> string \<Rightarrow> string \<Rightarrow> matcher list
     \<Rightarrow> 're list \<Rightarrow> 're list \<Rightarrow> 're list \<Rightarrow> string \<times> route_info
     \<Rightarrow> 'fs export_state \<Rightarrow> error + 'fs export_state" where
  "exportRoute h sourceDir distDir destDir middlewareMatchers
       rewritesRegexesNotSupportedByFirebase redirectsRegexesNotSupportedByFirebase
       headersRegexesNotSupportedByFirebase entry s =
     (let path = fst entry; route = snd entry
      in if truthyNumber (initialRevalidateSeconds route) then Inr s
         else
           bindE (someMatcher h middlewareMatchers path) (\<lambda>matchingMiddleware.
             if matchingMiddleware then Inr s
             else if list_ex (\<lambda>rewriteRegex. test h rewriteRegex path)
                       rewritesRegexesNotSupportedByFirebase then Inr s
             else if list_ex (\<lambda>redirectRegex. test h redirectRegex path)
                       redirectsRegexesNotSupportedByFirebase then Inr s
             else if list_ex (\<lambda>headerRegex. test h headerRegex path)
                       headersRegexesNotSupportedByFirebase then Inr s
             else
               (let isReactServerComponent = endsWith (dataRoute route) ''.rsc'';
                    contentDist =
                      join [sourceDir, distDir, ''server'',
                            if isReactServerComponent then ''app'' else ''pages'']
                in bindE (doMkdir h (join [destDir, dirname (htmlPath path)]) s) (\<lambda>s1.
                   bindE (doCopyFile h (join [contentDist, htmlPath path])
                            (join [destDir, htmlPath path]) s1) (\<lambda>s2.
                   if \<not> isReactServerComponent then
                     bindE (doMkdir h (join [destDir, dirname (dataRoute route)]) s2)
                       (\<lambda>s3.
                     doCopyFile h (join [contentDist, dataPath path])
                       (join [destDir, dataRoute route]) s3)
                   else Inr s2)))))"

text \<open>
  The whole function. The prerender manifest and the routes manifest are read
  together under \<^verbatim>\<open>Promise.all\<close>.
\<close>

definition codegenPublicDirectory ::
  "('fs, 're) host \<Rightarrow> utils \<Rightarrow> project \<Rightarrow> string \<Rightarrow> string \<Rightarrow> 'fs export_state
     \<Rightarrow> error + 'fs export_state" where
  "codegenPublicDirectory h u p sourceDir destDir s0 =
     bindE (config p) (\<lambda>distDir.
     let publicPath = join [sourceDir, ''public'']
     in
     bindE (doMkdir h (join [destDir, ''_next'', ''static'']) s0) (\<lambda>s1.
     bindE (if pathExists h publicPath (files s1) then doCopy h publicPath destDir s1
            else Inr s1) (\<lambda>s2.
     bindE (doCopy h (join [sourceDir, distDir, ''static''])
              (join [destDir, ''_next'', ''static'']) s2) (\<lambda>s3.
     bindE (forEach (copyDefaultHtml h sourceDir distDir destDir) defaultHtmlFiles s3)
       (\<lambda>s4.
     bindE (readJSON None (middlewareManifestFile p)) (\<lambda>middlewareManifest.
     let middlewareMatchers =
           concat (map (\<lambda>it. matchers it) (map snd (middleware middlewareManifest)))
     in
     bindE (promiseAll (secondRejectsFirst h)
              (readJSON None (prerenderManifestFile p))
              (readJSON None (routesManifestFile p))) (\<lambda>bothManifests.
     let prerenderManifest = fst bothManifests;
         routesManifest = snd bothManifests
     in
     let rewritesToUse = getNextjsRewritesToUse (nextJsRewrites routesManifest);
         rewritesNotSupportedByFirebase =
           filter (\<lambda>rewrite. \<not> isRewriteSupportedByFirebase u rewrite) rewritesToUse
     in
     bindE (compileAll h (map rewrite_regex rewritesNotSupportedByFirebase)) (\<lambda>rewriteRes.
     let redirectsNotSupportedByFirebase =
           filter (\<lambda>redirect. \<not> isRedirectSupportedByFirebase u redirect)
             (nextJsRedirects routesManifest)
     in
     bindE (compileAll h (map redirect_regex redirectsNotSupportedByFirebase))
       (\<lambda>redirectRes.
     let headersNotSupportedByFirebase =
           filter (\<lambda>header. \<not> isHeaderSupportedByFirebase u header)
             (nextJsHeaders routesManifest)
     in
     bindE (compileAll h (map header_regex headersNotSupportedByFirebase)) (\<lambda>headerRes.
     forEach
       (exportRoute h sourceDir distDir destDir middlewareMatchers
          rewriteRes redirectRes headerRes)
       (routes prerenderManifest) s4))))))))))"

subsection \<open>A small host and a small project, for the examples\<close>

text \<open>
  An in-memory file system: the files with their contents, the most recent entry
  of a path first. A directory is there when a file lies below it. Creating a
  directory changes nothing; copying a missing source fails.
\<close>

type_synonym memfs = "(string \<times> string) list"

definition memExists :: "string \<Rightarrow> memfs \<Rightarrow> bool" where
  "memExists path fs =
     list_ex (\<lambda>entry. fst entry = path \<or> prefix (path @ ''/'') (fst entry)) fs"

definition memMkdir :: "string \<Rightarrow> memfs \<Rightarrow> error + memfs" where
  "memMkdir path fs = Inr fs"

definition memCopyFile :: "string \<Rightarrow> string \<Rightarrow> memfs \<Rightarrow> error + memfs" where
  "memCopyFile src dest fs =
     (case map_of fs src of
        None \<Rightarrow> Inl (IOError ''ENOENT'')
      | Some content \<Rightarrow> Inr ((dest, content) # fs))"

definition memCopy :: "string \<Rightarrow> string \<Rightarrow> memfs \<Rightarrow> error + memfs" where
  "memCopy src dest fs =
     (if \<not> memExists src fs then Inl (IOError ''ENOENT'')
      else Inr (map (\<lambda>entry. (dest @ drop (length src) (fst entry), snd entry))
                  (filter (\<lambda>entry. prefix (src @ ''/'') (fst entry)) fs) @ fs))"

text \<open>
  The expressions of the examples are anchored literals: \<^verbatim>\<open>^/blog$\<close> matches the
  path \<^verbatim>\<open>/blog\<close> and nothing else; the pattern \<^verbatim>\<open>(\<close> does not compile.
\<close>

definition exampleHost :: "(memfs, string) host" where
  "exampleHost =
     \<lparr>pathExists = memExists, mkdir = memMkdir, copy = memCopy, copyFile = memCopyFile,
      newRegExp = (\<lambda>pattern. if pattern = ''('' then None else Some pattern),
      test = (\<lambda>re path. re = ''^'' @ path @ ''$''),
      secondRejectsFirst = False\<rparr>"

text \<open>
  Helpers for the examples: a rule is supported when its source has no parenthesis,
  and cleaning a source removes its backslashes.
\<close>

definition exampleUtils :: utils where
  "exampleUtils =
     \<lparr>isHeaderSupportedByFirebase = (\<lambda>h. CHR ''('' \<notin> set (header_source h)),
      isRedirectSupportedByFirebase = (\<lambda>r. CHR ''('' \<notin> set (redirect_source r)),
      isRewriteSupportedByFirebase = (\<lambda>r. CHR ''('' \<notin> set (rewrite_source r)),
      cleanEscapedChars = filter (\<lambda>c. c \<noteq> CHR 0x5C)\<rparr>"

text \<open>
  A project with the static page \<^verbatim>\<open>/\<close>, no middleware, no image, no app directory
  and no routing rule.
\<close>

definition examplePrerender :: prerender_manifest where
  "examplePrerender =
     \<lparr>routes = [(''/'', \<lparr>initialRevalidateSeconds = None,
                          dataRoute = ''/_next/data/B/index.json''\<rparr>)],
      dynamicRoutes = Some []\<rparr>"

definition exampleRoutes :: routes_manifest where
  "exampleRoutes =
     \<lparr>manifest_headers = Some [], manifest_redirects = Some [],
      manifest_rewrites = Some (RewriteArray [])\<rparr>"

definition exampleProject :: project where
  "exampleProject =
     \<lparr>nextBuild = None, config = Inr ''.next'', debug = False,
      middlewareManifestFile = Parsed \<lparr>middleware = []\<rparr>,
      exportMarkerFile = Parsed \<lparr>isNextImageImported = Some False\<rparr>,
      imagesManifestFile = Absent,
      appPathRoutesManifestFile = Absent,
      prerenderManifestFile = Parsed examplePrerender,
      pagesManifestFile =
        Parsed [(''/_app'', ''pages/_app.js''), (''/'', ''pages/index.html'')],
      routesManifestFile = Parsed exampleRoutes\<rparr>"

text \<open>The build output of the project, with a page in both build locations.\<close>

definition exampleFiles :: memfs where
  "exampleFiles =
     [(''/app/.next/static/chunk.js'', ''chunk''),
      (''/app/.next/server/pages/index.html'', ''legacy index''),
      (''/app/.next/server/pages/index.json'', ''legacy data''),
      (''/app/.next/server/app/index.html'', ''component index'')]"

definition exampleState :: "memfs export_state" where
  "exampleState = \<lparr>files = exampleFiles, calls = []\<rparr>"

text \<open>
  A project that needs a backend: a middleware registered with no matcher, images
  imported with no \<^verbatim>\<open>unoptimized\<close> setting, the page \<^verbatim>\<open>/\<close> revalidated every ten
  seconds, a page \<^verbatim>\<open>/about\<close> that is not prerendered, one header out of three that
  is not supported, and rewrites in phases.
\<close>

definition backendPrerender :: prerender_manifest where
  "backendPrerender =
     \<lparr>routes = [(''/'', \<lparr>initialRevalidateSeconds = Some 10,
                          dataRoute = ''/_next/data/B/index.json''\<rparr>),
                (''/blog'', \<lparr>initialRevalidateSeconds = None,
                              dataRoute = ''/_next/data/B/blog.json''\<rparr>)],
      dynamicRoutes = Some [(''/posts/[id]'', \<lparr>fallback = FallbackFalse\<rparr>)]\<rparr>"

definition backendPages :: pages_manifest where
  "backendPages =
     [(''/_app'', ''pages/_app.js''), (''/'', ''pages/index.html''),
      (''/about'', ''pages/about.js''), (''/blog'', ''pages/blog.html''),
      (''/posts/[id]'', ''pages/posts/[id].js'')]"

definition backendHeaders :: "header_rule list" where
  "backendHeaders =
     [\<lparr>header_source = ''/a'', header_headers = [(''x-a'', ''1'')],
       header_regex = ''^/a$''\<rparr>,
      \<lparr>header_source = ''/b(.*)'', header_headers = [(''x-b'', ''2'')],
       header_regex = ''^/b(.*)$''\<rparr>,
      \<lparr>header_source = ''/c'', header_headers = [(''x-c'', ''3'')],
       header_regex = ''^/c$''\<rparr>]"

definition backendRoutes :: routes_manifest where
  "backendRoutes =
     \<lparr>manifest_headers = Some backendHeaders,
      manifest_redirects = None,
      manifest_rewrites =
        Some (RewritePhases
          (Some [\<lparr>rewrite_source = ''/old'', rewrite_destination = ''/new'',
                  rewrite_regex = ''^/old$''\<rparr>])
          (Some [\<lparr>rewrite_source = ''/late'', rewrite_destination = ''/blog'',
                  rewrite_regex = ''^/late$''\<rparr>])
          None)\<rparr>"

definition backendProject :: project where
  "backendProject =
     \<lparr>nextBuild = None, config = Inr ''.next'', debug = False,
      middlewareManifestFile = Parsed \<lparr>middleware = [(''/'', \<lparr>matchers = []\<rparr>)]\<rparr>,
      exportMarkerFile = Parsed \<lparr>isNextImageImported = Some True\<rparr>,
      imagesManifestFile = Parsed \<lparr>images = \<lparr>unoptimized = None\<rparr>\<rparr>,
      appPathRoutesManifestFile = Absent,
      prerenderManifestFile = Parsed backendPrerender,
      pagesManifestFile = Parsed backendPages,
      routesManifestFile = Parsed backendRoutes\<rparr>"

text \<open>
  The small project with its only page \<^verbatim>\<open>/\<close> revalidated every ten seconds.
\<close>

definition revalidatedRoot :: route_info where
  "revalidatedRoot =
     \<lparr>initialRevalidateSeconds = Some 10, dataRoute = ''/_next/data/B/index.json''\<rparr>"

definition revalidatedProject :: project where
  "revalidatedProject =
     exampleProject
       \<lparr>prerenderManifestFile :=
          Parsed \<lparr>routes = [(''/'', revalidatedRoot)], dynamicRoutes = Some []\<rparr>\<rparr>"

section \<open>Properties\<close>

subsection \<open>Results and errors\<close>

lemma bindE_Inr: "bindE m f = Inr y \<longleftrightarrow> (\<exists>x. m = Inr x \<and> f x = Inr y)"
  by (cases m) (simp_all add: bindE_def)

lemma bindE_Inl: "bindE m f = Inl e \<longleftrightarrow> m = Inl e \<or> (\<exists>x. m = Inr x \<and> f x = Inl e)"
  by (cases m) (simp_all add: bindE_def)

lemma readJSON_Inr: "readJSON None f = Inr v \<longleftrightarrow> f = Parsed v"
  by (cases f) (simp_all add: readJSON_def)

lemma readJSON_Parsed: "readJSON emptyStructure (Parsed v) = Inr v"
  by (simp add: readJSON_def)

lemma bindE_simps: "bindE (Inr x) f = f x" "bindE (Inl e) f = Inl e"
  by (simp_all add: bindE_def)

subsection \<open>The reasons of a build that returns\<close>

text \<open>
  When \<^verbatim>\<open>build\<close> returns, every manifest on its way was read, and the reasons are
  those of the nine checks, in the order of the source.
\<close>

lemma build_Inr:
  assumes "build u p = Inr out"
  shows "\<exists>distDir mm em irs ars pm pg urs m.
     nextBuild p = None \<and> config p = Inr distDir
   \<and> readJSON None (middlewareManifestFile p) = Inr mm
   \<and> readJSON (Some emptyExportMarker) (exportMarkerFile p) = Inr em
   \<and> imageReasons em (imagesManifestFile p) = Inr irs
   \<and> appDirReasons (appPathRoutesManifestFile p) = Inr ars
   \<and> readJSON None (prerenderManifestFile p) = Inr pm
   \<and> readJSON None (pagesManifestFile p) = Inr pg
   \<and> unrenderedReasons pg pm = Inr urs
   \<and> readJSON None (routesManifestFile p) = Inr m
   \<and> reasonsForBackend out =
        middlewareReasons mm @ irs @ ars @ fallbackReasons pm @ revalidateReasons pm @ urs
        @ headerReasons u (nextJsHeaders m) @ redirectReasons u (nextJsRedirects m)
        @ rewriteReasons u (nextJsRewrites m)
   \<and> wantsBackend (returned out) = (length (reasonsForBackend out) > 0)
   \<and> resultHeaders (returned out) = emittedHeaders u (nextJsHeaders m)
   \<and> resultRedirects (returned out) = emittedRedirects u (nextJsRedirects m)
   \<and> resultRewrites (returned out) = emittedRewrites u (nextJsRewrites m)"
  using assms unfolding build_def
  by (auto simp: bindE_Inr Let_def split: option.splits)

text \<open>
  Conversely \<^verbatim>\<open>build\<close> returns when the framework's build succeeded, the
  configuration was loaded and every file on its way is there and parses.
\<close>

lemma build_returns:
  assumes "nextBuild p = None" and "config p = Inr distDir"
    and "middlewareManifestFile p = Parsed mm"
    and "exportMarkerFile p = Parsed em"
    and "isNextImageImported em = Some True \<Longrightarrow> \<exists>im. imagesManifestFile p = Parsed im"
    and "appPathRoutesManifestFile p \<noteq> Malformed"
    and "prerenderManifestFile p = Parsed pm" and "dynamicRoutes pm = Some d"
    and "pagesManifestFile p = Parsed pg"
    and "routesManifestFile p = Parsed m"
  shows "\<exists>out. build u p = Inr out"
proof -
  have "\<exists>irs. imageReasons em (imagesManifestFile p) = Inr irs"
    using assms(5)
    by (auto simp: imageReasons_def truthyBool_def readJSON_def bindE_def
        split: option.splits)
  moreover have "\<exists>ars. appDirReasons (appPathRoutesManifestFile p) = Inr ars"
    using assms(6)
    by (cases "appPathRoutesManifestFile p")
      (simp_all add: appDirReasons_def fileExistsSync_def readJSON_def bindE_def Let_def)
  moreover have "\<exists>urs. unrenderedReasons pg pm = Inr urs"
    using assms(8) by (simp add: unrenderedReasons_def)
  ultimately show ?thesis
    using assms(1-4,7,9,10)
    by (auto simp: build_def readJSON_def bindE_def Let_def)
qed

lemma middlewareReasons_eq:
  "middlewareReasons mm = (if middleware mm = [] then [] else [''use of Next middleware''])"
  by (simp add: middlewareReasons_def)

lemma imageReasons_Inr:
  "imageReasons em f = Inr irs \<Longrightarrow>
     irs = (if truthyBool (isNextImageImported em)
               \<and> (\<exists>im. f = Parsed im \<and> unoptimized (images im) = Some False)
            then [''use of Next Image Optimization''] else [])"
  by (cases f)
    (auto simp: imageReasons_def bindE_Inr readJSON_def emptyImagesManifest_def
      split: if_splits)

lemma appDirReasons_Inr:
  "appDirReasons f = Inr ars \<Longrightarrow>
     ars = (if (\<exists>m. f = Parsed m \<and> m \<noteq> []) then [''use of Next app directory''] else [])"
  by (cases f)
    (auto simp: appDirReasons_def bindE_Inr readJSON_def fileExistsSync_def
      split: if_splits)

lemma fallbackReasons_elem:
  "r \<in> set (fallbackReasons pm) \<Longrightarrow> \<exists>k. r = ''use of fallback '' @ k"
  by (auto simp: fallbackReasons_def)

lemma revalidateReasons_elem:
  "r \<in> set (revalidateReasons pm) \<Longrightarrow> \<exists>k. r = ''use of revalidate '' @ k"
  by (auto simp: revalidateReasons_def)

lemma unrenderedReasons_elem:
  "unrenderedReasons pg pm = Inr urs \<Longrightarrow> r \<in> set urs
     \<Longrightarrow> \<exists>k. r = ''non-static route '' @ k"
  by (auto simp: unrenderedReasons_def split: option.splits)

lemma headerReasons_eq:
  "headerReasons u hs =
     (if list_all (isHeaderSupportedByFirebase u) hs then []
      else [''use of advanced headers''])"
  by (simp add: headerReasons_def)

lemma redirectReasons_eq:
  "redirectReasons u rs =
     (if list_all (isRedirectSupportedByFirebase u) rs then []
      else [''use of advanced redirects''])"
  by (simp add: redirectReasons_def)

lemma rewriteReasons_eq:
  "rewriteReasons u rw =
     (if usesUnsupportedPhases rw
         \<or> \<not> list_all (isRewriteSupportedByFirebase u) (getNextjsRewritesToUse rw)
      then [''use of advanced rewrites''] else [])"
  by (simp add: rewriteReasons_def)

text \<open>
  Counting a reason built from a key: the keys of an object are distinct, so a key
  that passes the filter gives its reason once.
\<close>

lemma count_list_entries:
  "distinct (map fst xs) \<Longrightarrow>
   count_list (map (\<lambda>(k, it). pre @ k) (filter P xs)) (pre @ key) =
     (if \<exists>it. (key, it) \<in> set xs \<and> P (key, it) then 1 else 0)"
proof (induction xs)
  case Nil
  then show ?case by simp
next
  case (Cons x xs)
  obtain k v where x: "x = (k, v)" by (cases x)
  from Cons.prems have notin: "k \<notin> fst ` set xs" and d: "distinct (map fst xs)"
    by (simp_all add: x)
  show ?case
  proof (cases "k = key")
    case True
    with notin have "\<not> (\<exists>it. (key, it) \<in> set xs \<and> P (key, it))" by force
    with Cons.IH [OF d] True show ?thesis by (auto simp: x)
  next
    case False
    with Cons.IH [OF d] show ?thesis by (auto simp: x)
  qed
qed

lemma count_list_keys:
  "distinct ks \<Longrightarrow>
   count_list (map (\<lambda>k. pre @ k) (filter Q ks)) (pre @ key) =
     (if key \<in> set ks \<and> Q key then 1 else 0)"
  by (induction ks) auto

subsection \<open>The backend flag\<close>

text \<open>
  Claim C1. Whenever \<^verbatim>\<open>build\<close> returns, \<^verbatim>\<open>wantsBackend\<close> is true if and only if
  the list of reasons is not empty: never true with no reason, never false with
  one.
\<close>

theorem build_wantsBackend_iff_reasons:
  assumes "build u p = Inr out"
  shows "wantsBackend (returned out) \<longleftrightarrow> reasonsForBackend out \<noteq> []"
proof -
  from build_Inr [OF assms]
  have "wantsBackend (returned out) = (length (reasonsForBackend out) > 0)" by blast
  then show ?thesis by simp
qed

theorem build_wantsBackend_iff_reasons_witness:
  "\<exists>out. build exampleUtils backendProject = Inr out
     \<and> wantsBackend (returned out) \<and> reasonsForBackend out \<noteq> []"
proof -
  have "\<not> isl (build exampleUtils backendProject)" by code_simp
  then obtain out where b: "build exampleUtils backendProject = Inr out"
    by (cases "build exampleUtils backendProject") auto
  have "reasonsForBackend (projr (build exampleUtils backendProject)) \<noteq> []"
    by code_simp
  then have "reasonsForBackend out \<noteq> []" using b by simp
  with build_wantsBackend_iff_reasons [OF b] b show ?thesis by simp
qed

subsection \<open>Middleware\<close>

text \<open>
  Claim C3, as amended. When \<^verbatim>\<open>build\<close> returns, the reason for middleware is
  among the reasons exactly when the middleware manifest registers at least one
  middleware, whether or not it has matchers.
\<close>

theorem middleware_reason_iff_registered:
  assumes "build u p = Inr out" and "middlewareManifestFile p = Parsed mm"
  shows "''use of Next middleware'' \<in> set (reasonsForBackend out) \<longleftrightarrow> middleware mm \<noteq> []"
proof -
  from build_Inr [OF assms(1)] obtain mm' em irs ars pm pg urs m where
    mw: "readJSON None (middlewareManifestFile p) = Inr mm'"
    and im: "imageReasons em (imagesManifestFile p) = Inr irs"
    and ap: "appDirReasons (appPathRoutesManifestFile p) = Inr ars"
    and ur: "unrenderedReasons pg pm = Inr urs"
    and rs: "reasonsForBackend out =
        middlewareReasons mm' @ irs @ ars @ fallbackReasons pm @ revalidateReasons pm @ urs
        @ headerReasons u (nextJsHeaders m) @ redirectReasons u (nextJsRedirects m)
        @ rewriteReasons u (nextJsRewrites m)"
    by blast
  have mm: "mm' = mm" using mw assms(2) by (simp add: readJSON_Inr)
  have "''use of Next middleware'' \<notin> set irs"
    using imageReasons_Inr [OF im] by (simp split: if_splits)
  moreover have "''use of Next middleware'' \<notin> set ars"
    using appDirReasons_Inr [OF ap] by (simp split: if_splits)
  moreover have "''use of Next middleware'' \<notin> set (fallbackReasons pm)"
    using fallbackReasons_elem by fastforce
  moreover have "''use of Next middleware'' \<notin> set (revalidateReasons pm)"
    using revalidateReasons_elem by fastforce
  moreover have "''use of Next middleware'' \<notin> set urs"
    using unrenderedReasons_elem [OF ur] by fastforce
  ultimately show ?thesis
    by (simp add: rs mm middlewareReasons_eq headerReasons_eq redirectReasons_eq
        rewriteReasons_eq)
qed

theorem middleware_reason_iff_registered_witness:
  "\<exists>out. build exampleUtils exampleProject = Inr out
     \<and> ''use of Next middleware'' \<notin> set (reasonsForBackend out)"
proof -
  have "\<not> isl (build exampleUtils exampleProject)" by code_simp
  then obtain out where b: "build exampleUtils exampleProject = Inr out"
    by (cases "build exampleUtils exampleProject") auto
  have "middlewareManifestFile exampleProject = Parsed \<lparr>middleware = []\<rparr>"
    by (simp add: exampleProject_def)
  from middleware_reason_iff_registered [OF b this] b show ?thesis by simp
qed

text \<open>
  The claim as stated fails: a manifest whose only middleware has no matcher still
  gives the reason.
\<close>

theorem middleware_without_matcher_counterexample:
  "concat (map (\<lambda>it. matchers it) (map snd [(''/'', \<lparr>matchers = []\<rparr>)])) = []
   \<and> middlewareManifestFile backendProject
       = Parsed \<lparr>middleware = [(''/'', \<lparr>matchers = []\<rparr>)]\<rparr>
   \<and> (case build exampleUtils backendProject of
        Inl e \<Rightarrow> False
      | Inr out \<Rightarrow> ''use of Next middleware'' \<in> set (reasonsForBackend out))"
proof -
  have "case build exampleUtils backendProject of
        Inl e \<Rightarrow> False
      | Inr out \<Rightarrow> ''use of Next middleware'' \<in> set (reasonsForBackend out)"
    by code_simp
  then show ?thesis by (simp add: backendProject_def)
qed


subsection \<open>Image optimization\<close>

text \<open>
  Claim C5, as amended. When \<^verbatim>\<open>build\<close> returns, the reason for image optimization
  is among the reasons exactly when the marker \<^verbatim>\<open>isNextImageImported\<close> is true and
  the images manifest sets \<^verbatim>\<open>images.unoptimized\<close> to \<^verbatim>\<open>false\<close>; a manifest that
  leaves the setting out gives no reason.
\<close>

theorem image_reason_iff_explicitly_optimized:
  assumes "build u p = Inr out" and "exportMarkerFile p = Parsed em"
  shows "''use of Next Image Optimization'' \<in> set (reasonsForBackend out) \<longleftrightarrow>
           isNextImageImported em = Some True
           \<and> (\<exists>im. imagesManifestFile p = Parsed im \<and> unoptimized (images im) = Some False)"
proof -
  from build_Inr [OF assms(1)] obtain mm em' irs ars pm pg urs m where
    ex: "readJSON (Some emptyExportMarker) (exportMarkerFile p) = Inr em'"
    and im: "imageReasons em' (imagesManifestFile p) = Inr irs"
    and ap: "appDirReasons (appPathRoutesManifestFile p) = Inr ars"
    and ur: "unrenderedReasons pg pm = Inr urs"
    and rs: "reasonsForBackend out =
        middlewareReasons mm @ irs @ ars @ fallbackReasons pm @ revalidateReasons pm @ urs
        @ headerReasons u (nextJsHeaders m) @ redirectReasons u (nextJsRedirects m)
        @ rewriteReasons u (nextJsRewrites m)"
    by blast
  have em: "em' = em" using ex assms(2) by (simp add: readJSON_Parsed)
  let ?r = "''use of Next Image Optimization''"
  have truthy: "truthyBool (isNextImageImported em) \<longleftrightarrow> isNextImageImported em = Some True"
    by (simp add: truthyBool_def split: option.splits)
  have "?r \<in> set irs \<longleftrightarrow>
          isNextImageImported em = Some True
           \<and> (\<exists>im. imagesManifestFile p = Parsed im \<and> unoptimized (images im) = Some False)"
    using imageReasons_Inr [OF im] by (simp add: em truthy)
  moreover have "?r \<notin> set (middlewareReasons mm)"
    by (simp add: middlewareReasons_eq)
  moreover have "?r \<notin> set ars"
    using appDirReasons_Inr [OF ap] by (simp split: if_splits)
  moreover have "?r \<notin> set (fallbackReasons pm)"
    using fallbackReasons_elem by fastforce
  moreover have "?r \<notin> set (revalidateReasons pm)"
    using revalidateReasons_elem by fastforce
  moreover have "?r \<notin> set urs"
    using unrenderedReasons_elem [OF ur] by fastforce
  moreover have "?r \<notin> set (headerReasons u (nextJsHeaders m))"
    by (simp add: headerReasons_eq)
  moreover have "?r \<notin> set (redirectReasons u (nextJsRedirects m))"
    by (simp add: redirectReasons_eq)
  moreover have "?r \<notin> set (rewriteReasons u (nextJsRewrites m))"
    by (simp add: rewriteReasons_eq)
  ultimately show ?thesis
    by (simp add: rs)
qed

theorem image_reason_iff_explicitly_optimized_witness:
  "\<exists>out. build exampleUtils
            (backendProject\<lparr>imagesManifestFile :=
               Parsed \<lparr>images = \<lparr>unoptimized = Some False\<rparr>\<rparr>\<rparr>) = Inr out
     \<and> ''use of Next Image Optimization'' \<in> set (reasonsForBackend out)"
proof -
  let ?p = "backendProject\<lparr>imagesManifestFile :=
               Parsed \<lparr>images = \<lparr>unoptimized = Some False\<rparr>\<rparr>\<rparr>"
  have "\<not> isl (build exampleUtils ?p)" by code_simp
  then obtain out where b: "build exampleUtils ?p = Inr out"
    by (cases "build exampleUtils ?p") auto
  have e: "exportMarkerFile ?p = Parsed \<lparr>isNextImageImported = Some True\<rparr>"
    by (simp add: backendProject_def)
  from image_reason_iff_explicitly_optimized [OF b e] b show ?thesis by simp
qed

text \<open>
  The claim as stated fails: with the marker set and an images manifest that does not
  disable optimization (it has no \<^verbatim>\<open>unoptimized\<close> setting), no reason is added.
\<close>

theorem image_reason_unset_counterexample:
  "exportMarkerFile backendProject = Parsed \<lparr>isNextImageImported = Some True\<rparr>
   \<and> imagesManifestFile backendProject = Parsed \<lparr>images = \<lparr>unoptimized = None\<rparr>\<rparr>
   \<and> (case build exampleUtils backendProject of
        Inl e \<Rightarrow> False
      | Inr out \<Rightarrow> ''use of Next Image Optimization'' \<notin> set (reasonsForBackend out))"
proof -
  have "case build exampleUtils backendProject of
        Inl e \<Rightarrow> False
      | Inr out \<Rightarrow> ''use of Next Image Optimization'' \<notin> set (reasonsForBackend out)"
    by code_simp
  then show ?thesis by (simp add: backendProject_def)
qed

subsection \<open>Rewrites in phases\<close>

text \<open>
  Claim C6. When \<^verbatim>\<open>build\<close> returns, the reason for advanced rewrites occurs at most
  once among the reasons; and when the rewrites of the routes manifest are in phases
  with a non-empty \<^verbatim>\<open>afterFiles\<close> or \<^verbatim>\<open>fallback\<close> list it occurs exactly once,
  whatever the compatibility predicate says of the single rules.
\<close>

theorem phased_rewrites_reason_once:
  assumes "build u p = Inr out" and "routesManifestFile p = Parsed m"
  shows "count_list (reasonsForBackend out) ''use of advanced rewrites'' \<le> 1
       \<and> (\<forall>beforeFiles afterFiles fallbackPhase.
            manifest_rewrites m = Some (RewritePhases beforeFiles afterFiles fallbackPhase)
            \<and> ((\<exists>rs. afterFiles = Some rs \<and> rs \<noteq> [])
                 \<or> (\<exists>rs. fallbackPhase = Some rs \<and> rs \<noteq> []))
            \<longrightarrow> count_list (reasonsForBackend out) ''use of advanced rewrites'' = 1)"
proof -
  from build_Inr [OF assms(1)] obtain mm em irs ars pm pg urs m' where
    ro: "readJSON None (routesManifestFile p) = Inr m'"
    and im: "imageReasons em (imagesManifestFile p) = Inr irs"
    and ap: "appDirReasons (appPathRoutesManifestFile p) = Inr ars"
    and ur: "unrenderedReasons pg pm = Inr urs"
    and rs: "reasonsForBackend out =
        middlewareReasons mm @ irs @ ars @ fallbackReasons pm @ revalidateReasons pm @ urs
        @ headerReasons u (nextJsHeaders m') @ redirectReasons u (nextJsRedirects m')
        @ rewriteReasons u (nextJsRewrites m')"
    by blast
  have m: "m' = m" using ro assms(2) by (simp add: readJSON_Inr)
  let ?r = "''use of advanced rewrites''"
  have "count_list (middlewareReasons mm) ?r = 0"
    by (simp add: middlewareReasons_eq)
  moreover have "count_list irs ?r = 0"
    using imageReasons_Inr [OF im] by (simp split: if_splits)
  moreover have "count_list ars ?r = 0"
    using appDirReasons_Inr [OF ap] by (simp split: if_splits)
  moreover have "count_list (fallbackReasons pm) ?r = 0"
    using fallbackReasons_elem [of ?r pm] by (auto simp: count_list_0_iff)
  moreover have "count_list (revalidateReasons pm) ?r = 0"
    using revalidateReasons_elem [of ?r pm] by (auto simp: count_list_0_iff)
  moreover have "count_list urs ?r = 0"
    using unrenderedReasons_elem [OF ur, of ?r] by (auto simp: count_list_0_iff)
  moreover have "count_list (headerReasons u (nextJsHeaders m)) ?r = 0"
    by (simp add: headerReasons_eq)
  moreover have "count_list (redirectReasons u (nextJsRedirects m)) ?r = 0"
    by (simp add: redirectReasons_eq)
  ultimately have total: "count_list (reasonsForBackend out) ?r
      = count_list (rewriteReasons u (nextJsRewrites m)) ?r"
    by (simp add: rs m)
  have atmost: "count_list (rewriteReasons u (nextJsRewrites m)) ?r \<le> 1"
    by (simp add: rewriteReasons_eq)
  have phases: "count_list (rewriteReasons u (nextJsRewrites m)) ?r = 1"
    if "manifest_rewrites m = Some (RewritePhases beforeFiles afterFiles fallbackPhase)"
      and "(\<exists>rs. afterFiles = Some rs \<and> rs \<noteq> []) \<or> (\<exists>rs. fallbackPhase = Some rs \<and> rs \<noteq> [])"
    for beforeFiles afterFiles fallbackPhase
  proof -
    have "usesUnsupportedPhases (nextJsRewrites m)"
      using that by (auto simp: usesUnsupportedPhases_def nextJsRewrites_def truthyLength_def)
    then show ?thesis by (simp add: rewriteReasons_eq)
  qed
  from total atmost phases show ?thesis by auto
qed

theorem phased_rewrites_reason_once_witness:
  "\<exists>out. build exampleUtils backendProject = Inr out
     \<and> list_all (isRewriteSupportedByFirebase exampleUtils)
         (getNextjsRewritesToUse (nextJsRewrites backendRoutes))
     \<and> count_list (reasonsForBackend out) ''use of advanced rewrites'' = 1"
proof -
  have "\<not> isl (build exampleUtils backendProject)" by code_simp
  then obtain out where b: "build exampleUtils backendProject = Inr out"
    by (cases "build exampleUtils backendProject") auto
  have f: "routesManifestFile backendProject = Parsed backendRoutes"
    by (simp add: backendProject_def)
  have s: "list_all (isRewriteSupportedByFirebase exampleUtils)
         (getNextjsRewritesToUse (nextJsRewrites backendRoutes))"
    by code_simp
  from phased_rewrites_reason_once [OF b f] b s show ?thesis
    by (simp add: backendRoutes_def)
qed

subsection \<open>Pages that are not prerendered\<close>

text \<open>
  Claim C7. When \<^verbatim>\<open>build\<close> returns, a page of the pages manifest that is not one
  of the five reserved pages and is a key of neither the routes nor the dynamic routes
  of the prerender manifest is named once by a non-static-route reason, and
  \<^verbatim>\<open>wantsBackend\<close> is true. The pages are the keys of a JSON object, so they are
  distinct.
\<close>

theorem unrendered_page_reported:
  assumes "build u p = Inr out"
    and "pagesManifestFile p = Parsed pages"
    and "prerenderManifestFile p = Parsed pm"
    and "distinct (map fst pages)"
    and "page \<in> set (map fst pages)"
    and "page \<notin> set [''/_app'', ''/'', ''/_error'', ''/_document'', ''/404'']"
    and "page \<notin> set (map fst (routes pm))"
    and "\<forall>d. dynamicRoutes pm = Some d \<longrightarrow> page \<notin> set (map fst d)"
  shows "count_list (reasonsForBackend out) (''non-static route '' @ page) = 1
       \<and> wantsBackend (returned out)"
proof -
  from build_Inr [OF assms(1)] obtain mm em irs ars pm' pg urs m where
    pr: "readJSON None (prerenderManifestFile p) = Inr pm'"
    and pa: "readJSON None (pagesManifestFile p) = Inr pg"
    and im: "imageReasons em (imagesManifestFile p) = Inr irs"
    and ap: "appDirReasons (appPathRoutesManifestFile p) = Inr ars"
    and ur: "unrenderedReasons pg pm' = Inr urs"
    and rs: "reasonsForBackend out =
        middlewareReasons mm @ irs @ ars @ fallbackReasons pm' @ revalidateReasons pm' @ urs
        @ headerReasons u (nextJsHeaders m) @ redirectReasons u (nextJsRedirects m)
        @ rewriteReasons u (nextJsRewrites m)"
    and wb: "wantsBackend (returned out) = (length (reasonsForBackend out) > 0)"
    by blast
  have pm: "pm' = pm" using pr assms(3) by (simp add: readJSON_Inr)
  have pg: "pg = pages" using pa assms(2) by (simp add: readJSON_Inr)
  let ?r = "''non-static route '' @ page"
  from ur obtain d where d: "dynamicRoutes pm = Some d"
    and urs: "urs = map (\<lambda>key. ''non-static route '' @ key)
                 (unrenderedPages pages (map fst (routes pm)) (map fst d))"
    by (auto simp: unrenderedReasons_def pm pg split: option.splits)
  let ?Q = "\<lambda>it. \<not> (it \<in> set reservedPages \<or> it \<in> set (map fst (routes pm))
                      \<or> it \<in> set (map fst d))"
  have q: "?Q page"
    using assms(6,7,8) d by (simp add: reservedPages_def)
  have "count_list urs ?r = (if page \<in> set (map fst pages) \<and> ?Q page then 1 else 0)"
    unfolding urs unrenderedPages_def by (rule count_list_keys [OF assms(4)])
  also have "\<dots> = 1"
    using q assms(5) by (simp only: if_True simp_thms)
  finally have "count_list urs ?r = 1" .
  moreover have "count_list (middlewareReasons mm) ?r = 0"
    by (simp add: middlewareReasons_eq)
  moreover have "count_list irs ?r = 0"
    using imageReasons_Inr [OF im] by (simp split: if_splits)
  moreover have "count_list ars ?r = 0"
    using appDirReasons_Inr [OF ap] by (simp split: if_splits)
  moreover have "count_list (fallbackReasons pm) ?r = 0"
    using fallbackReasons_elem [of ?r pm] by (auto simp: count_list_0_iff)
  moreover have "count_list (revalidateReasons pm) ?r = 0"
    using revalidateReasons_elem [of ?r pm] by (auto simp: count_list_0_iff)
  moreover have "count_list (headerReasons u (nextJsHeaders m)) ?r = 0"
    by (simp add: headerReasons_eq)
  moreover have "count_list (redirectReasons u (nextJsRedirects m)) ?r = 0"
    by (simp add: redirectReasons_eq)
  moreover have "count_list (rewriteReasons u (nextJsRewrites m)) ?r = 0"
    by (simp add: rewriteReasons_eq)
  ultimately have c: "count_list (reasonsForBackend out) ?r = 1"
    by (simp add: rs pm)
  then have "reasonsForBackend out \<noteq> []" by auto
  with c wb show ?thesis by simp
qed

theorem unrendered_page_reported_witness:
  "\<exists>out. build exampleUtils backendProject = Inr out
     \<and> count_list (reasonsForBackend out) ''non-static route /about'' = 1
     \<and> wantsBackend (returned out)"
proof -
  have "\<not> isl (build exampleUtils backendProject)" by code_simp
  then obtain out where b: "build exampleUtils backendProject = Inr out"
    by (cases "build exampleUtils backendProject") auto
  have f: "pagesManifestFile backendProject = Parsed backendPages"
    and g: "prerenderManifestFile backendProject = Parsed backendPrerender"
    by (simp_all add: backendProject_def)
  have d: "distinct (map fst backendPages)"
    and i: "''/about'' \<in> set (map fst backendPages)"
    by (simp_all add: backendPages_def)
  have r: "''/about'' \<notin> set [''/_app'', ''/'', ''/_error'', ''/_document'', ''/404'']"
    by simp
  have n: "''/about'' \<notin> set (map fst (routes backendPrerender))"
    and dy: "\<forall>d. dynamicRoutes backendPrerender = Some d \<longrightarrow> ''/about'' \<notin> set (map fst d)"
    by (simp_all add: backendPrerender_def)
  from unrendered_page_reported [OF b f g d i r n dy] b show ?thesis by simp
qed

subsection \<open>The default HTML files\<close>

text \<open>
  Claim C2, as amended. For each of the files \<^verbatim>\<open>index.html\<close>, \<^verbatim>\<open>404.html\<close> and
  \<^verbatim>\<open>500.html\<close> (and for any file name), the loop body copies the file from the
  legacy build location \<^verbatim>\<open>server/pages\<close> when it is there, whether or not the
  component-rendered location \<^verbatim>\<open>server/app\<close> has it too; it copies from
  \<^verbatim>\<open>server/app\<close> only when the legacy location has no such file, and copies
  nothing when neither has it.
\<close>

theorem default_html_from_pages_first:
  assumes "copyDefaultHtml h sourceDir distDir destDir file s = Inr s'"
  shows "(if pathExists h (join [sourceDir, distDir, ''server'', ''pages'', file]) (files s)
          then copyFile h (join [sourceDir, distDir, ''server'', ''pages'', file])
                 (join [destDir, file]) (files s) = Inr (files s')
             \<and> calls s' = calls s
                 @ [CopyFile (join [sourceDir, distDir, ''server'', ''pages'', file])
                      (join [destDir, file])]
          else if pathExists h (join [sourceDir, distDir, ''server'', ''app'', file]) (files s)
          then copyFile h (join [sourceDir, distDir, ''server'', ''app'', file])
                 (join [destDir, file]) (files s) = Inr (files s')
             \<and> calls s' = calls s
                 @ [CopyFile (join [sourceDir, distDir, ''server'', ''app'', file])
                      (join [destDir, file])]
          else s' = s)"
  using assms
  by (auto simp: copyDefaultHtml_def doCopyFile_def bindE_Inr Let_def split: if_splits)

theorem default_html_from_pages_first_witness:
  "pathExists exampleHost (join [''/app'', ''.next'', ''server'', ''pages'', ''index.html''])
     (files exampleState)
   \<and> (\<exists>s'. copyDefaultHtml exampleHost ''/app'' ''.next'' ''/out'' ''index.html'' exampleState
            = Inr s'
          \<and> calls s' = [CopyFile ''/app/.next/server/pages/index.html'' ''/out/index.html''])"
proof -
  let ?r = "copyDefaultHtml exampleHost ''/app'' ''.next'' ''/out'' ''index.html'' exampleState"
  have "\<not> isl ?r" by code_simp
  then obtain s' where c: "?r = Inr s'" by (cases ?r) auto
  have e: "pathExists exampleHost (join [''/app'', ''.next'', ''server'', ''pages'', ''index.html''])
     (files exampleState)"
    by code_simp
  have j: "join [''/app'', ''.next'', ''server'', ''pages'', ''index.html'']
            = ''/app/.next/server/pages/index.html''"
    "join [''/out'', ''index.html''] = ''/out/index.html''"
    by code_simp+
  have k: "calls exampleState = []" by (simp add: exampleState_def)
  from default_html_from_pages_first [OF c] e have
    "calls s' = calls exampleState
                 @ [CopyFile (join [''/app'', ''.next'', ''server'', ''pages'', ''index.html''])
                      (join [''/out'', ''index.html''])]"
    by simp
  then have "calls s' = [CopyFile ''/app/.next/server/pages/index.html'' ''/out/index.html'']"
    by (simp only: j k append_Nil)
  with c e show ?thesis by blast
qed

text \<open>
  The claim as stated fails: with \<^verbatim>\<open>index.html\<close> in both build locations, the file
  copied is the legacy one, and the whole export never copies the component-rendered
  one.
\<close>

theorem default_html_prefers_app_counterexample:
  "pathExists exampleHost ''/app/.next/server/app/index.html'' exampleFiles
   \<and> pathExists exampleHost ''/app/.next/server/pages/index.html'' exampleFiles
   \<and> copyDefaultHtml exampleHost ''/app'' ''.next'' ''/out'' ''index.html'' exampleState
       = Inr \<lparr>files = (''/out/index.html'', ''legacy index'') # exampleFiles,
              calls = [CopyFile ''/app/.next/server/pages/index.html'' ''/out/index.html'']\<rparr>
   \<and> (case codegenPublicDirectory exampleHost exampleUtils exampleProject ''/app'' ''/out''
             exampleState of
        Inl e \<Rightarrow> False
      | Inr s \<Rightarrow>
          CopyFile ''/app/.next/server/app/index.html'' ''/out/index.html'' \<notin> set (calls s)
          \<and> map_of (files s) ''/out/index.html'' = Some ''legacy index'')"
  by code_simp

subsection \<open>The file names of a route\<close>





subsection \<open>Revalidated routes\<close>

lemma promiseAll_Inr: "promiseAll b (Inr x) second = bindE second (\<lambda>y. Inr (x, y))"
  by (simp add: promiseAll_def bindE_def split: sum.splits)

lemma bindE_assoc: "bindE (bindE m f) g = bindE m (\<lambda>x. bindE (f x) g)"
  by (cases m) (simp_all add: bindE_def)

text \<open>
  A loop whose body leaves the state as it is on some elements runs as the loop over
  the other elements. So the export of a project is the export of the same project
  without routes that are revalidated.
\<close>

lemma forEach_filter:
  assumes "\<And>x s. x \<in> set xs \<Longrightarrow> \<not> keep x \<Longrightarrow> body x s = Inr s"
  shows "forEach body xs s = forEach body (filter keep xs) s"
  using assms
proof (induction xs arbitrary: s)
  case Nil
  then show ?case by simp
next
  case (Cons x xs)
  have ih: "forEach body xs t = forEach body (filter keep xs) t" for t
    using Cons.IH Cons.prems by simp
  show ?case
  proof (cases "keep x")
    case True
    then show ?thesis by (simp add: bindE_def ih split: sum.splits)
  next
    case False
    with Cons.prems have "body x s = Inr s" by simp
    with False show ?thesis by (simp add: bindE_def ih)
  qed
qed

lemma export_without_skipped_routes:
  assumes "prerenderManifestFile p = Parsed pm"
    and "\<And>entry. entry \<in> set (routes pm) \<Longrightarrow> \<not> keep entry
           \<Longrightarrow> truthyNumber (initialRevalidateSeconds (snd entry))"
  shows "codegenPublicDirectory h u p sourceDir destDir s =
         codegenPublicDirectory h u
           (p\<lparr>prerenderManifestFile := Parsed (pm\<lparr>routes := filter keep (routes pm)\<rparr>)\<rparr>)
           sourceDir destDir s"
proof -
  have skip: "forEach (exportRoute h sourceDir distDir destDir mms rw rd hd) (routes pm) t
      = forEach (exportRoute h sourceDir distDir destDir mms rw rd hd)
          (filter keep (routes pm)) t"
    for distDir mms rw rd hd t
    by (rule forEach_filter) (simp add: exportRoute_def assms(2))
  show ?thesis
    by (simp add: codegenPublicDirectory_def assms(1) readJSON_Parsed promiseAll_Inr
        bindE_assoc bindE_simps skip Let_def)
qed


text \<open>
  Claim C4, as amended. For a route of the prerender manifest whose
  \<^verbatim>\<open>initialRevalidateSeconds\<close> is a positive number, the loop of the exporter over
  the prerendered routes skips it: the whole export does what it does for the
  manifest without that route, and the loop body on that route leaves every state as
  it is (no directory made, no HTML or data file copied). The reasons of \<^verbatim>\<open>build\<close>
  name the route once for revalidation. The routes are the entries of a JSON object,
  so their keys are distinct. Nothing is said here of the separate copy of the
  default files \<^verbatim>\<open>index.html\<close>, \<^verbatim>\<open>404.html\<close> and \<^verbatim>\<open>500.html\<close>.
\<close>

theorem revalidated_route_skipped_by_route_loop:
  assumes "build u p = Inr out"
    and "prerenderManifestFile p = Parsed pm"
    and "distinct (map fst (routes pm))"
    and "(path, route) \<in> set (routes pm)"
    and "initialRevalidateSeconds route = Some n" and "0 < n"
  shows "codegenPublicDirectory h u p sourceDir destDir s
           = codegenPublicDirectory h u
               (p\<lparr>prerenderManifestFile :=
                    Parsed (pm\<lparr>routes :=
                              filter (\<lambda>entry. fst entry \<noteq> path) (routes pm)\<rparr>)\<rparr>)
               sourceDir destDir s
       \<and> exportRoute h sourceDir distDir destDir middlewareMatchers rewriteRes redirectRes
           headerRes (path, route) t = Inr t
       \<and> count_list (reasonsForBackend out) (''use of revalidate '' @ path) = 1"
proof -
  from build_Inr [OF assms(1)] obtain mm em irs ars pm' pg urs m where
    pr: "readJSON None (prerenderManifestFile p) = Inr pm'"
    and im: "imageReasons em (imagesManifestFile p) = Inr irs"
    and ap: "appDirReasons (appPathRoutesManifestFile p) = Inr ars"
    and ur: "unrenderedReasons pg pm' = Inr urs"
    and rs: "reasonsForBackend out =
        middlewareReasons mm @ irs @ ars @ fallbackReasons pm' @ revalidateReasons pm' @ urs
        @ headerReasons u (nextJsHeaders m) @ redirectReasons u (nextJsRedirects m)
        @ rewriteReasons u (nextJsRewrites m)"
    by blast
  have pm: "pm' = pm" using pr assms(2) by (simp add: readJSON_Inr)
  let ?r = "''use of revalidate '' @ path"
  have truthy: "truthyNumber (initialRevalidateSeconds route)"
    using assms(5,6) by (simp add: truthyNumber_def)
  have skip: "exportRoute h sourceDir distDir destDir middlewareMatchers rewriteRes
                redirectRes headerRes (path, route) t = Inr t"
    using truthy by (simp add: exportRoute_def)
  have only: "truthyNumber (initialRevalidateSeconds (snd entry))"
    if "entry \<in> set (routes pm)" and "\<not> fst entry \<noteq> path" for entry
  proof -
    from that(2) have "entry = (path, snd entry)" by (cases entry) simp
    with that(1) assms(3,4) have "snd entry = route"
      by (metis eq_key_imp_eq_value)
    with truthy show ?thesis by simp
  qed
  have whole: "codegenPublicDirectory h u p sourceDir destDir s
           = codegenPublicDirectory h u
               (p\<lparr>prerenderManifestFile :=
                    Parsed (pm\<lparr>routes :=
                              filter (\<lambda>entry. fst entry \<noteq> path) (routes pm)\<rparr>)\<rparr>)
               sourceDir destDir s"
    using assms(2) only by (rule export_without_skipped_routes)
  have "count_list (revalidateReasons pm) ?r = 1"
    unfolding revalidateReasons_def Let_def
    using count_list_entries [OF assms(3), where pre = "''use of revalidate ''" and key = path
        and P = "\<lambda>(key, it). truthyNumber (initialRevalidateSeconds it)"]
      assms(4) truthy by auto
  moreover have "count_list (middlewareReasons mm) ?r = 0"
    by (simp add: middlewareReasons_eq)
  moreover have "count_list irs ?r = 0"
    using imageReasons_Inr [OF im] by (simp split: if_splits)
  moreover have "count_list ars ?r = 0"
    using appDirReasons_Inr [OF ap] by (simp split: if_splits)
  moreover have "count_list (fallbackReasons pm) ?r = 0"
    using fallbackReasons_elem [of ?r pm] by (auto simp: count_list_0_iff)
  moreover have "count_list urs ?r = 0"
    using unrenderedReasons_elem [OF ur, of ?r] by (auto simp: count_list_0_iff)
  moreover have "count_list (headerReasons u (nextJsHeaders m)) ?r = 0"
    by (simp add: headerReasons_eq)
  moreover have "count_list (redirectReasons u (nextJsRedirects m)) ?r = 0"
    by (simp add: redirectReasons_eq)
  moreover have "count_list (rewriteReasons u (nextJsRewrites m)) ?r = 0"
    by (simp add: rewriteReasons_eq)
  ultimately have "count_list (reasonsForBackend out) ?r = 1"
    by (simp add: rs pm)
  with skip whole show ?thesis by simp
qed

theorem revalidated_route_skipped_by_route_loop_witness:
  "\<exists>out. build exampleUtils revalidatedProject = Inr out
     \<and> codegenPublicDirectory exampleHost exampleUtils revalidatedProject ''/app'' ''/out''
         exampleState
       = codegenPublicDirectory exampleHost exampleUtils
           (revalidatedProject
              \<lparr>prerenderManifestFile := Parsed \<lparr>routes = [], dynamicRoutes = Some []\<rparr>\<rparr>)
           ''/app'' ''/out'' exampleState
     \<and> exportRoute exampleHost ''/app'' ''.next'' ''/out'' [] [] [] [] (''/'', revalidatedRoot)
         exampleState = Inr exampleState
     \<and> count_list (reasonsForBackend out) ''use of revalidate /'' = 1"
proof -
  let ?pm = "\<lparr>routes = [(''/'', revalidatedRoot)], dynamicRoutes = Some []\<rparr>"
  have "\<not> isl (build exampleUtils revalidatedProject)" by code_simp
  then obtain out where b: "build exampleUtils revalidatedProject = Inr out"
    by (cases "build exampleUtils revalidatedProject") auto
  have f: "prerenderManifestFile revalidatedProject = Parsed ?pm"
    by (simp add: revalidatedProject_def)
  have d: "distinct (map fst (routes ?pm))" by simp
  have r: "(''/'', revalidatedRoot) \<in> set (routes ?pm)" by simp
  have n: "initialRevalidateSeconds revalidatedRoot = Some 10"
    by (simp add: revalidatedRoot_def)
  have pos: "0 < (10::nat)" by simp
  from revalidated_route_skipped_by_route_loop [OF b f d r n pos,
      of exampleHost "''/app''" "''/out''" exampleState "''.next''" "[]" "[]" "[]" "[]"
      exampleState] b
  show ?thesis by simp
qed

text \<open>
  The claim as stated fails: with the route \<^verbatim>\<open>/\<close> revalidated every ten seconds,
  the export still copies its HTML file \<^verbatim>\<open>index.html\<close>, in the loop over the default
  files.
\<close>

theorem revalidated_root_html_copied_counterexample:
  "prerenderManifestFile revalidatedProject
     = Parsed \<lparr>routes = [(''/'', revalidatedRoot)], dynamicRoutes = Some []\<rparr>
   \<and> initialRevalidateSeconds revalidatedRoot = Some 10
   \<and> htmlPath ''/'' = ''index.html''
   \<and> (case codegenPublicDirectory exampleHost exampleUtils revalidatedProject ''/app''
             ''/out'' exampleState of
        Inl e \<Rightarrow> False
      | Inr s \<Rightarrow>
          CopyFile ''/app/.next/server/pages/index.html'' ''/out/index.html'' \<in> set (calls s)
          \<and> map_of (files s) ''/out/index.html'' = Some ''legacy index'')"
  by code_simp


subsection \<open>Missing manifests\<close>









subsection \<open>The emitted rules\<close>

text \<open>
  Claim C9. When \<^verbatim>\<open>build\<close> returns, the emitted headers, redirects and rewrites are,
  rule by rule and in order, the supported rules of the input list of their kind,
  each with its source cleaned of escapes and its other properties copied. The
  supported rules are a subsequence of the input list, the emitted list is a
  subsequence of the input list written in the emitted form, and the copied
  properties of the emitted rules are a subsequence of those of the input rules:
  rules are dropped, none is moved. For the rewrites the input list is the list of
  rules to use.
\<close>

theorem emitted_rules_subsequence:
  assumes "build u p = Inr out" and "routesManifestFile p = Parsed m"
  shows "resultHeaders (returned out)
           = map (\<lambda>h. \<lparr>source = cleanEscapedChars u (header_source h),
                        headers = header_headers h\<rparr>)
               (filter (isHeaderSupportedByFirebase u) (nextJsHeaders m))
       \<and> subseq (filter (isHeaderSupportedByFirebase u) (nextJsHeaders m)) (nextJsHeaders m)
       \<and> subseq (resultHeaders (returned out))
           (map (\<lambda>h. \<lparr>source = cleanEscapedChars u (header_source h),
                        headers = header_headers h\<rparr>) (nextJsHeaders m))
       \<and> subseq (map headers (resultHeaders (returned out)))
           (map header_headers (nextJsHeaders m))
       \<and> resultRedirects (returned out)
           = map (\<lambda>r. \<lparr>source = cleanEscapedChars u (redirect_source r),
                        destination = redirect_destination r,
                        type = redirect_statusCode r\<rparr>)
               (filter (isRedirectSupportedByFirebase u) (nextJsRedirects m))
       \<and> subseq (filter (isRedirectSupportedByFirebase u) (nextJsRedirects m))
           (nextJsRedirects m)
       \<and> subseq (resultRedirects (returned out))
           (map (\<lambda>r. \<lparr>source = cleanEscapedChars u (redirect_source r),
                        destination = redirect_destination r,
                        type = redirect_statusCode r\<rparr>) (nextJsRedirects m))
       \<and> subseq (map (\<lambda>e. (destination e, type e)) (resultRedirects (returned out)))
           (map (\<lambda>r. (redirect_destination r, redirect_statusCode r)) (nextJsRedirects m))
       \<and> resultRewrites (returned out)
           = map (\<lambda>r. \<lparr>source = cleanEscapedChars u (rewrite_source r),
                        destination = rewrite_destination r\<rparr>)
               (filter (isRewriteSupportedByFirebase u)
                  (getNextjsRewritesToUse (nextJsRewrites m)))
       \<and> subseq (filter (isRewriteSupportedByFirebase u)
                   (getNextjsRewritesToUse (nextJsRewrites m)))
           (getNextjsRewritesToUse (nextJsRewrites m))
       \<and> subseq (resultRewrites (returned out))
           (map (\<lambda>r. \<lparr>source = cleanEscapedChars u (rewrite_source r),
                        destination = rewrite_destination r\<rparr>)
              (getNextjsRewritesToUse (nextJsRewrites m)))
       \<and> subseq (map destination (resultRewrites (returned out)))
           (map rewrite_destination (getNextjsRewritesToUse (nextJsRewrites m)))"
proof -
  from build_Inr [OF assms(1)] obtain m' where
    ro: "readJSON None (routesManifestFile p) = Inr m'"
    and hs: "resultHeaders (returned out) = emittedHeaders u (nextJsHeaders m')"
    and rs: "resultRedirects (returned out) = emittedRedirects u (nextJsRedirects m')"
    and ws: "resultRewrites (returned out) = emittedRewrites u (nextJsRewrites m')"
    by blast
  have m: "m' = m" using ro assms(2) by (simp add: readJSON_Inr)
  have h1: "resultHeaders (returned out)
           = map (\<lambda>h. \<lparr>source = cleanEscapedChars u (header_source h),
                        headers = header_headers h\<rparr>)
               (filter (isHeaderSupportedByFirebase u) (nextJsHeaders m))"
    by (simp add: hs m emittedHeaders_def emitHeader_def)
  have r1: "resultRedirects (returned out)
           = map (\<lambda>r. \<lparr>source = cleanEscapedChars u (redirect_source r),
                        destination = redirect_destination r,
                        type = redirect_statusCode r\<rparr>)
               (filter (isRedirectSupportedByFirebase u) (nextJsRedirects m))"
    by (simp add: rs m emittedRedirects_def emitRedirect_def)
  have w1: "resultRewrites (returned out)
           = map (\<lambda>r. \<lparr>source = cleanEscapedChars u (rewrite_source r),
                        destination = rewrite_destination r\<rparr>)
               (filter (isRewriteSupportedByFirebase u)
                  (getNextjsRewritesToUse (nextJsRewrites m)))"
    by (simp add: ws m emittedRewrites_def emitRewrite_def)
  have h2: "subseq (map headers (resultHeaders (returned out)))
           (map header_headers (nextJsHeaders m))"
    unfolding h1 by (simp add: comp_def subseq_map)
  have r2: "subseq (map (\<lambda>e. (destination e, type e)) (resultRedirects (returned out)))
           (map (\<lambda>r. (redirect_destination r, redirect_statusCode r)) (nextJsRedirects m))"
    unfolding r1 by (simp add: comp_def subseq_map)
  have w2: "subseq (map destination (resultRewrites (returned out)))
           (map rewrite_destination (getNextjsRewritesToUse (nextJsRewrites m)))"
    unfolding w1 by (simp add: comp_def subseq_map)
  have h3: "subseq (resultHeaders (returned out))
           (map (\<lambda>h. \<lparr>source = cleanEscapedChars u (header_source h),
                        headers = header_headers h\<rparr>) (nextJsHeaders m))"
    unfolding h1 by (simp add: subseq_map)
  have r3: "subseq (resultRedirects (returned out))
           (map (\<lambda>r. \<lparr>source = cleanEscapedChars u (redirect_source r),
                        destination = redirect_destination r,
                        type = redirect_statusCode r\<rparr>) (nextJsRedirects m))"
    unfolding r1 by (simp add: subseq_map)
  have w3: "subseq (resultRewrites (returned out))
           (map (\<lambda>r. \<lparr>source = cleanEscapedChars u (rewrite_source r),
                        destination = rewrite_destination r\<rparr>)
              (getNextjsRewritesToUse (nextJsRewrites m)))"
    unfolding w1 by (simp add: subseq_map)
  from h1 h2 h3 r1 r2 r3 w1 w2 w3 show ?thesis by simp
qed

theorem emitted_rules_subsequence_witness:
  "\<exists>out. build exampleUtils backendProject = Inr out
     \<and> resultHeaders (returned out)
         = [\<lparr>source = ''/a'', headers = [(''x-a'', ''1'')]\<rparr>,
            \<lparr>source = ''/c'', headers = [(''x-c'', ''3'')]\<rparr>]
     \<and> subseq [backendHeaders ! 0, backendHeaders ! 2] backendHeaders
     \<and> subseq [[(''x-a'', ''1'')], [(''x-c'', ''3'')]] (map header_headers backendHeaders)"
proof -
  have "\<not> isl (build exampleUtils backendProject)" by code_simp
  then obtain out where b: "build exampleUtils backendProject = Inr out"
    by (cases "build exampleUtils backendProject") auto
  have f: "routesManifestFile backendProject = Parsed backendRoutes"
    by (simp add: backendProject_def)
  have h: "nextJsHeaders backendRoutes = backendHeaders"
    by (simp add: nextJsHeaders_def backendRoutes_def)
  have flt: "filter (isHeaderSupportedByFirebase exampleUtils) backendHeaders
        = [backendHeaders ! 0, backendHeaders ! 2]"
    by (simp add: backendHeaders_def exampleUtils_def)
  have e0: "\<lparr>source = cleanEscapedChars exampleUtils (header_source (backendHeaders ! 0)),
              headers = header_headers (backendHeaders ! 0)\<rparr>
            = \<lparr>source = ''/a'', headers = [(''x-a'', ''1'')]\<rparr>"
    and e2: "\<lparr>source = cleanEscapedChars exampleUtils (header_source (backendHeaders ! 2)),
              headers = header_headers (backendHeaders ! 2)\<rparr>
            = \<lparr>source = ''/c'', headers = [(''x-c'', ''3'')]\<rparr>"
    by (simp_all add: backendHeaders_def exampleUtils_def)
  from emitted_rules_subsequence [OF b f]
  have "resultHeaders (returned out)
         = [\<lparr>source = ''/a'', headers = [(''x-a'', ''1'')]\<rparr>,
            \<lparr>source = ''/c'', headers = [(''x-c'', ''3'')]\<rparr>]"
    and "subseq [backendHeaders ! 0, backendHeaders ! 2] backendHeaders"
    by (simp_all add: h flt e0 e2)
  moreover have "subseq [[(''x-a'', ''1'')], [(''x-c'', ''3'')]]
                   (map header_headers backendHeaders)"
    by code_simp
  ultimately show ?thesis using b by auto
qed

end
